theory Spec2Isabelle
  imports Main
begin

section \<open>Data model\<close>

text \<open>
  The role enumeration of \<^verbatim>\<open>src/profiles/entities/profile.entity.ts\<close>. At run time the
  members are the strings \<^verbatim>\<open>'student'\<close>, \<^verbatim>\<open>'faculty'\<close>, \<^verbatim>\<open>'admin'\<close>, \<^verbatim>\<open>'guest'\<close>.
\<close>

datatype Role = STUDENT | FACULTY | ADMIN | GUEST

fun Role_value :: "Role \<Rightarrow> string" where
  "Role_value STUDENT = ''student''"
| "Role_value FACULTY = ''faculty''"
| "Role_value ADMIN = ''admin''"
| "Role_value GUEST = ''guest''"

text \<open>
  The \<^verbatim>\<open>Profile\<close> entity (the identity record). The primary key \<^verbatim>\<open>id\<close> is named
  \<open>profile_id\<close> here; the time stamps and the relations to students and lecturers play
  no part in the authentication core and are left out. \<^verbatim>\<open>hashedRefreshToken\<close> is
  \<^verbatim>\<open>string | null\<close>.
\<close>

record Profile =
  profile_id :: int
  firstName :: string
  lastName :: string
  email :: string
  password :: string
  role :: Role
  hashedRefreshToken :: "string option"

text \<open>
  \<^verbatim>\<open>JWTPayload = { sub: number; email: string; role: string }\<close> of
  \<^verbatim>\<open>at.strategy.ts\<close>, and the value \<^verbatim>\<open>{ ...payload, refreshToken }\<close> that
  \<^verbatim>\<open>RfStrategy.validate\<close> attaches to the request.
\<close>

record JWTPayload =
  sub :: int
  payload_email :: string
  payload_role :: string

record RtUser = JWTPayload +
  user_refreshToken :: string

text \<open>The pair \<^verbatim>\<open>{ accessToken, refreshToken }\<close> returned by sign-in and refresh.\<close>

record Tokens =
  accessToken :: string
  refreshToken :: string

record CreateAuthDto =
  dto_email :: string
  dto_password :: string

text \<open>Of an incoming request only the \<^verbatim>\<open>Authorization\<close> header matters.\<close>

record request =
  authorization :: "string option"

text \<open>
  The HTTP exceptions the code throws, each with its message, and the \<^verbatim>\<open>TypeError\<close>
  of calling a method on \<^verbatim>\<open>undefined\<close>.
\<close>

datatype error =
    NotFoundException string
  | UnauthorizedException string
  | ForbiddenException string
  | BadRequestException string
  | TypeError string

fun statusCode :: "error \<Rightarrow> nat" where
  "statusCode (NotFoundException m) = 404"
| "statusCode (UnauthorizedException m) = 401"
| "statusCode (ForbiddenException m) = 403"
| "statusCode (BadRequestException m) = 400"
| "statusCode (TypeError m) = 500"

fun is_NotFoundException :: "error \<Rightarrow> bool" where
  "is_NotFoundException (NotFoundException m) = True"
| "is_NotFoundException e = False"

section \<open>Configuration and the external libraries\<close>

text \<open>
  The code reaches four configuration values through \<^verbatim>\<open>ConfigService.getOrThrow\<close>
  and four libraries: \<^verbatim>\<open>@nestjs/jwt\<close> (\<^verbatim>\<open>signAsync\<close>), \<^verbatim>\<open>passport-jwt\<close> (the
  extraction of the bearer token and its verification against \<^verbatim>\<open>secretOrKey\<close>),
  \<^verbatim>\<open>bcrypt\<close> (\<^verbatim>\<open>hash\<close>, \<^verbatim>\<open>compare\<close>) and \<^verbatim>\<open>@nestjs/common\<close> (\<^verbatim>\<open>ParseIntPipe\<close>,
  applied to a query parameter that may be missing). None of them is code of the repository,
  so they are parameters of the model, collected in one record. The configuration
  values are taken to be present. What the libraries read besides their arguments is
  made an argument: the clock (in seconds) for signing and verification, the salt
  drawn by \<^verbatim>\<open>Bcrypt.genSalt(10)\<close> for hashing.
\<close>

record env =
  JWT_ACCESS_TOKEN_SECRET :: string
  JWT_ACCESS_TOKEN_EXPIRATION_TIME :: string
  JWT_REFRESH_TOKEN_SECRET :: string
  JWT_REFRESH_TOKEN_EXPIRATION_TIME :: string
  signAsync :: "JWTPayload \<Rightarrow> string \<Rightarrow> string \<Rightarrow> nat \<Rightarrow> string"
  jwtFromRequest :: "request \<Rightarrow> string option"
  jwtVerify :: "string \<Rightarrow> nat \<Rightarrow> string \<Rightarrow> JWTPayload option"
  Bcrypt_hash :: "string \<Rightarrow> string \<Rightarrow> string"
  Bcrypt_compare :: "string \<Rightarrow> string \<Rightarrow> bool"
  ParseIntPipe :: "string option \<Rightarrow> error + int"

section \<open>JavaScript strings\<close>

text \<open>
  \<^verbatim>\<open>String(n)\<close> for an integer: the decimal digits, with a minus sign for a
  negative number. It renders the ids in the messages.
\<close>

definition digit_char :: "nat \<Rightarrow> char" where
  "digit_char d = ''0123456789'' ! d"

fun String_of_nat :: "nat \<Rightarrow> string" where
  "String_of_nat n =
     (if n < 10 then [digit_char n] else String_of_nat (n div 10) @ [digit_char (n mod 10)])"

declare String_of_nat.simps [simp del]

definition String_of_int :: "int \<Rightarrow> string" where
  "String_of_int i = (if i < 0 then CHR ''-'' # String_of_nat (nat (- i)) else String_of_nat (nat i))"

text \<open>
  \<^verbatim>\<open>s.replace(pat, rep)\<close> with a string pattern replaces the first occurrence only.
\<close>

fun String_replace :: "string \<Rightarrow> string \<Rightarrow> string \<Rightarrow> string" where
  "String_replace pat rep [] = (if pat = [] then rep else [])"
| "String_replace pat rep (c # cs) =
     (if take (length pat) (c # cs) = pat then rep @ drop (length pat) (c # cs)
      else c # String_replace pat rep cs)"

text \<open>
  \<^verbatim>\<open>s.trim()\<close> strips white space at both ends. A character of a header is one
  byte (Node reads headers as Latin-1); of the white space of ECMAScript, space, tab,
  line feed, vertical tab, form feed, carriage return and the no-break space U+00A0
  lie in that range.
\<close>

definition is_whitespace :: "char \<Rightarrow> bool" where
  "is_whitespace c = (c \<in> set [CHR '' '', CHR 0x09, CHR 0x0A, CHR 0x0B, CHR 0x0C, CHR 0x0D, CHR 0xA0])"

definition String_trim :: "string \<Rightarrow> string" where
  "String_trim s = rev (dropWhile is_whitespace (rev (dropWhile is_whitespace s)))"

section \<open>The profile repository\<close>

text \<open>
  The table of profiles is a list of rows. \<^verbatim>\<open>findOne({ where: ... })\<close> returns the
  first row that matches or \<^verbatim>\<open>null\<close>; \<^verbatim>\<open>update(id, partial)\<close> changes every row
  with that id and reports how many rows it affected: the rows that have that id,
  whether or not the new values differ from the old.
\<close>

type_synonym store = "Profile list"

definition findOne_by_email :: "store \<Rightarrow> string \<Rightarrow> Profile option" where
  "findOne_by_email st e = find (\<lambda>p. email p = e) st"

definition findOne_by_id :: "store \<Rightarrow> int \<Rightarrow> Profile option" where
  "findOne_by_id st i = find (\<lambda>p. profile_id p = i) st"

definition repository_update :: "int \<Rightarrow> (Profile \<Rightarrow> Profile) \<Rightarrow> store \<Rightarrow> nat \<times> store" where
  "repository_update i f st =
     (length (filter (\<lambda>p. profile_id p = i) st),
      map (\<lambda>p. if profile_id p = i then f p else p) st)"

section \<open>Route metadata\<close>

text \<open>
  \<^verbatim>\<open>SetMetadata\<close> attaches a value to a handler or to a controller class;
  \<^verbatim>\<open>Reflector.getAllAndOverride(key, [handler, class])\<close> returns the first of the
  two that is defined. \<^verbatim>\<open>Public()\<close> sets \<^verbatim>\<open>'isPublic'\<close> to \<^verbatim>\<open>true\<close> and
  \<^verbatim>\<open>Roles(...roles)\<close> sets \<^verbatim>\<open>'roles'\<close> to the array of its arguments.
\<close>

record route_meta =
  handler_isPublic :: "bool option"
  class_isPublic :: "bool option"
  handler_roles :: "Role list option"
  class_roles :: "Role list option"

definition getAllAndOverride :: "'a option \<Rightarrow> 'a option \<Rightarrow> 'a option" where
  "getAllAndOverride h c = (case h of Some v \<Rightarrow> Some v | None \<Rightarrow> c)"

definition Public :: "bool option" where
  "Public = Some True"

definition Roles :: "Role list \<Rightarrow> Role list option" where
  "Roles roles = Some roles"

definition no_metadata :: route_meta where
  "no_metadata =
     \<lparr>handler_isPublic = None, class_isPublic = None, handler_roles = None, class_roles = None\<rparr>"

section \<open>The guards\<close>

text \<open>
  \<^verbatim>\<open>AuthGuard(name).canActivate\<close> of \<^verbatim>\<open>@nestjs/passport\<close> runs the named
  passport-jwt strategy: the token is taken from the request, verified against the
  strategy's \<^verbatim>\<open>secretOrKey\<close>, and the strategy's \<^verbatim>\<open>validate\<close> gives the value
  stored in \<^verbatim>\<open>request.user\<close>. A missing or rejected token throws
  \<^verbatim>\<open>UnauthorizedException\<close>. The guards below return the value attached to the
  request instead of mutating it.
\<close>

definition AtStrategy_validate :: "JWTPayload \<Rightarrow> JWTPayload" where
  "AtStrategy_validate payload = payload"

definition AuthGuard_jwt_at :: "env \<Rightarrow> nat \<Rightarrow> request \<Rightarrow> error + JWTPayload" where
  "AuthGuard_jwt_at E now req =
     (case jwtFromRequest E req of
        None \<Rightarrow> Inl (UnauthorizedException ''Unauthorized'')
      | Some token \<Rightarrow>
          (case jwtVerify E (JWT_ACCESS_TOKEN_SECRET E) now token of
             None \<Rightarrow> Inl (UnauthorizedException ''Unauthorized'')
           | Some payload \<Rightarrow> Inr (AtStrategy_validate payload)))"

text \<open>
  \<^verbatim>\<open>AtGuard.canActivate\<close>: \<open>Inr None\<close> is \<^verbatim>\<open>true\<close> with nothing attached to the
  request (the public bypass), \<open>Inr (Some u)\<close> is \<^verbatim>\<open>true\<close> with \<^verbatim>\<open>request.user = u\<close>.
\<close>

definition AtGuard_canActivate ::
  "env \<Rightarrow> nat \<Rightarrow> route_meta \<Rightarrow> request \<Rightarrow> error + JWTPayload option" where
  "AtGuard_canActivate E now meta req =
     (let isPublic = getAllAndOverride (handler_isPublic meta) (class_isPublic meta)
      in if isPublic = Some True then Inr None
         else (case AuthGuard_jwt_at E now req of
                 Inl e \<Rightarrow> Inl e
               | Inr u \<Rightarrow> Inr (Some u)))"

text \<open>
  \<^verbatim>\<open>RfStrategy.validate(req, payload)\<close>:
  \<^verbatim>\<open>req.get('Authorization').replace('Bearer', '').trim()\<close>.
\<close>

definition RfStrategy_validate :: "request \<Rightarrow> JWTPayload \<Rightarrow> error + RtUser" where
  "RfStrategy_validate req payload =
     (case authorization req of
        None \<Rightarrow> Inl (TypeError ''Cannot read properties of undefined'')
      | Some hdr \<Rightarrow>
          Inr (JWTPayload.extend payload
                 (RtUser.fields (String_trim (String_replace ''Bearer'' '''' hdr)))))"

definition RtGuard_canActivate :: "env \<Rightarrow> nat \<Rightarrow> request \<Rightarrow> error + RtUser" where
  "RtGuard_canActivate E now req =
     (case jwtFromRequest E req of
        None \<Rightarrow> Inl (UnauthorizedException ''Unauthorized'')
      | Some token \<Rightarrow>
          (case jwtVerify E (JWT_REFRESH_TOKEN_SECRET E) now token of
             None \<Rightarrow> Inl (UnauthorizedException ''Unauthorized'')
           | Some payload \<Rightarrow> RfStrategy_validate req payload))"

text \<open>\<^verbatim>\<open>Array.prototype.some\<close>.\<close>

primrec some :: "('a \<Rightarrow> bool) \<Rightarrow> 'a list \<Rightarrow> bool" where
  "some P [] = False"
| "some P (x # xs) = (if P x then True else some P xs)"

text \<open>
  \<^verbatim>\<open>RolesGuard.canActivate\<close>. \<^verbatim>\<open>!requiredRoles\<close> holds of \<^verbatim>\<open>undefined\<close> only: an
  array, also the empty one, is truthy.
\<close>

definition RolesGuard_canActivate :: "route_meta \<Rightarrow> JWTPayload option \<Rightarrow> store \<Rightarrow> bool" where
  "RolesGuard_canActivate meta request_user st =
     (case getAllAndOverride (handler_roles meta) (class_roles meta) of
        None \<Rightarrow> True
      | Some requiredRoles \<Rightarrow>
          (case request_user of
             None \<Rightarrow> False
           | Some user \<Rightarrow>
               (case findOne_by_id st (sub user) of
                  None \<Rightarrow> False
                | Some userProfile \<Rightarrow> some (\<lambda>r. role userProfile = r) requiredRoles)))"

text \<open>
  A route behind \<^verbatim>\<open>@UseGuards(AtGuard, RolesGuard)\<close>: the guards run in order, an
  exception or a \<^verbatim>\<open>false\<close> ends the request, and \<^verbatim>\<open>false\<close> is answered with
  \<^verbatim>\<open>ForbiddenException\<close>.
\<close>

definition guarded_route ::
  "env \<Rightarrow> nat \<Rightarrow> route_meta \<Rightarrow> store \<Rightarrow> request \<Rightarrow> error + JWTPayload option" where
  "guarded_route E now meta st req =
     (case AtGuard_canActivate E now meta req of
        Inl e \<Rightarrow> Inl e
      | Inr u \<Rightarrow>
          if RolesGuard_canActivate meta u st then Inr u
          else Inl (ForbiddenException ''Forbidden resource''))"

section \<open>The session lifecycle service\<close>

text \<open>
  \<^verbatim>\<open>AuthService\<close>. Every method takes the table and returns, on success, its result
  with the table as it left it. \<open>now\<close> is the clock read by \<^verbatim>\<open>signAsync\<close> and
  \<open>salt\<close> the salt drawn by \<^verbatim>\<open>Bcrypt.genSalt(10)\<close>.
\<close>

definition getTokens :: "env \<Rightarrow> nat \<Rightarrow> int \<Rightarrow> string \<Rightarrow> string \<Rightarrow> Tokens" where
  "getTokens E now userId email' role' =
     (let at = signAsync E \<lparr>sub = userId, payload_email = email', payload_role = role'\<rparr>
                 (JWT_ACCESS_TOKEN_SECRET E) (JWT_ACCESS_TOKEN_EXPIRATION_TIME E) now;
          rt = signAsync E \<lparr>sub = userId, payload_email = email', payload_role = role'\<rparr>
                 (JWT_REFRESH_TOKEN_SECRET E) (JWT_REFRESH_TOKEN_EXPIRATION_TIME E) now
      in \<lparr>accessToken = at, refreshToken = rt\<rparr>)"

definition hashData :: "env \<Rightarrow> string \<Rightarrow> string \<Rightarrow> string" where
  "hashData E salt data = Bcrypt_hash E data salt"

definition saveRefreshToken :: "env \<Rightarrow> string \<Rightarrow> store \<Rightarrow> int \<Rightarrow> string \<Rightarrow> store" where
  "saveRefreshToken E salt st userId refreshToken' =
     (let hashedRefreshToken' = hashData E salt refreshToken'
      in snd (repository_update userId (\<lambda>p. p\<lparr>hashedRefreshToken := Some hashedRefreshToken'\<rparr>) st))"

definition signIn :: "env \<Rightarrow> nat \<Rightarrow> string \<Rightarrow> store \<Rightarrow> CreateAuthDto \<Rightarrow> error + Tokens \<times> store" where
  "signIn E now salt st createAuthDto =
     (case findOne_by_email st (dto_email createAuthDto) of
        None \<Rightarrow>
          Inl (NotFoundException (''User with email '' @ dto_email createAuthDto @ '' not found''))
      | Some foundUser \<Rightarrow>
          if \<not> Bcrypt_compare E (dto_password createAuthDto) (password foundUser)
          then Inl (NotFoundException ''Invalid credentials'')
          else
            (let tokens = getTokens E now (profile_id foundUser) (email foundUser)
                            (Role_value (role foundUser))
             in Inr (tokens, saveRefreshToken E salt st (profile_id foundUser) (refreshToken tokens))))"

text \<open>
  \<^verbatim>\<open>signOut\<close> receives the route parameter and hands it to \<^verbatim>\<open>update\<close> as the
  criterion; here it is the id the database reads from it.
\<close>

definition signOut :: "store \<Rightarrow> int \<Rightarrow> error + string \<times> store" where
  "signOut st userId =
     (let res = repository_update userId (\<lambda>p. p\<lparr>hashedRefreshToken := None\<rparr>) st
      in if fst res = 0
         then Inl (NotFoundException (''User with ID '' @ String_of_int userId @ '' not found''))
         else Inr (''User with id : '' @ String_of_int userId @ '' signed out successfully'',
                   snd res))"

text \<open>
  \<^verbatim>\<open>!foundUser.hashedRefreshToken\<close> holds of \<^verbatim>\<open>null\<close> and of the empty string.
\<close>

definition refreshTokens ::
  "env \<Rightarrow> nat \<Rightarrow> string \<Rightarrow> store \<Rightarrow> int \<Rightarrow> string \<Rightarrow> error + Tokens \<times> store" where
  "refreshTokens E now salt st i refreshToken' =
     (case findOne_by_id st i of
        None \<Rightarrow> Inl (NotFoundException (''User with ID '' @ String_of_int i @ '' not found''))
      | Some foundUser \<Rightarrow>
          (case hashedRefreshToken foundUser of
             None \<Rightarrow> Inl (NotFoundException ''No refresh token found'')
           | Some h \<Rightarrow>
               if h = [] then Inl (NotFoundException ''No refresh token found'')
               else if \<not> Bcrypt_compare E refreshToken' h
               then Inl (NotFoundException ''Invalid refresh token'')
               else
                 (let tokens = getTokens E now (profile_id foundUser) (email foundUser)
                                 (Role_value (role foundUser))
                  in Inr (tokens,
                          saveRefreshToken E salt st (profile_id foundUser) (refreshToken tokens)))))"

section \<open>The controller\<close>

text \<open>
  The handlers of \<^verbatim>\<open>AuthController\<close> and the routes as a request reaches them:
  \<^verbatim>\<open>AtGuard\<close> is registered globally (\<^verbatim>\<open>APP_GUARD\<close>), so it runs first on every
  route, then the guards the route names with \<^verbatim>\<open>@UseGuards\<close>, then the handler.
  \<^verbatim>\<open>signin\<close> and \<^verbatim>\<open>refresh\<close> carry \<^verbatim>\<open>@Public()\<close>, \<^verbatim>\<open>signout/:id\<close> does not.
  On \<^verbatim>\<open>refresh\<close> the \<^verbatim>\<open>id\<close> query parameter goes through \<^verbatim>\<open>ParseIntPipe\<close>
  after the guards and before the handler. On \<^verbatim>\<open>signout/:id\<close> the \<^verbatim>\<open>id\<close> is the
  integer its path parameter denotes, and the route names \<^verbatim>\<open>AtGuard\<close> again, so the
  guard runs twice there.
\<close>

definition AuthController_refreshTokens ::
  "env \<Rightarrow> nat \<Rightarrow> string \<Rightarrow> store \<Rightarrow> int \<Rightarrow> RtUser \<Rightarrow> error + Tokens \<times> store" where
  "AuthController_refreshTokens E now salt st i user =
     (if sub user \<noteq> i then Inl (UnauthorizedException ''Invalid user'')
      else refreshTokens E now salt st i (user_refreshToken user))"

definition AuthController_signOut :: "store \<Rightarrow> int \<Rightarrow> error + string \<times> store" where
  "AuthController_signOut st i = signOut st i"

definition signin_meta :: route_meta where
  "signin_meta = no_metadata\<lparr>handler_isPublic := Public\<rparr>"

definition signout_meta :: route_meta where
  "signout_meta = no_metadata"

definition refresh_meta :: route_meta where
  "refresh_meta = no_metadata\<lparr>handler_isPublic := Public\<rparr>"

definition GET_auth_signout :: "env \<Rightarrow> nat \<Rightarrow> store \<Rightarrow> request \<Rightarrow> int \<Rightarrow> error + string \<times> store" where
  "GET_auth_signout E now st req i =
     (case AtGuard_canActivate E now signout_meta req of
        Inl e \<Rightarrow> Inl e
      | Inr u \<Rightarrow>
          (case AtGuard_canActivate E now signout_meta req of
             Inl e \<Rightarrow> Inl e
           | Inr u' \<Rightarrow> AuthController_signOut st i))"

definition GET_auth_refresh ::
  "env \<Rightarrow> nat \<Rightarrow> string \<Rightarrow> store \<Rightarrow> request \<Rightarrow> string option \<Rightarrow> error + Tokens \<times> store" where
  "GET_auth_refresh E now salt st req id_query =
     (case AtGuard_canActivate E now refresh_meta req of
        Inl e \<Rightarrow> Inl e
      | Inr u \<Rightarrow>
          (case RtGuard_canActivate E now req of
             Inl e \<Rightarrow> Inl e
           | Inr user \<Rightarrow>
               (case ParseIntPipe E id_query of
                  Inl e \<Rightarrow> Inl e
                | Inr i \<Rightarrow> AuthController_refreshTokens E now salt st i user)))"

text \<open>
  What a caller observes of a guarded route: the request goes on to the handler, or
  it is refused with an exception.
\<close>

datatype outcome = Allow | Deny error

fun outcome_of :: "error + 'a \<Rightarrow> outcome" where
  "outcome_of (Inl e) = Deny e"
| "outcome_of (Inr v) = Allow"

section \<open>A test double for the libraries\<close>

text \<open>
  Concrete stand-ins for the library functions, used only to run the model on
  concrete requests.
  \<^item> \<open>stub_sign\<close> is a function of the payload, the secret, the lifetime and the
    clock, as an HMAC-signed token with an issued-at claim in seconds is. \<open>jwt_sign\<close>
    does the same with tokens of the shape and length of a JSON Web Token: the fixed
    header of 37 characters, then the claims in the order \<^verbatim>\<open>sub\<close>, \<^verbatim>\<open>email\<close>,
    \<^verbatim>\<open>role\<close>, \<^verbatim>\<open>iat\<close>, \<^verbatim>\<open>exp\<close>, then the signature part.
  \<^item> \<open>stub_verify\<close> knows four tokens and ignores expiry.
  \<^item> \<open>stub_extract\<close> follows \<^verbatim>\<open>ExtractJwt.fromAuthHeaderAsBearerToken()\<close>: the
    header is split into its first two words, and the second is the token when the
    first is \<^verbatim>\<open>bearer\<close> in any letter case.
  \<^item> \<open>stub_hash\<close> and \<open>stub_compare\<close> read the first 72 bytes of the data and no
    more, as bcrypt does; the hash is a two-character salt followed by those bytes.
  \<^item> \<open>stub_ParseIntPipe\<close> accepts an optional minus sign followed by digits.
\<close>

definition stub_sign :: "JWTPayload \<Rightarrow> string \<Rightarrow> string \<Rightarrow> nat \<Rightarrow> string" where
  "stub_sign payload secret expiresIn now =
     secret @ ''.'' @ String_of_int (sub payload) @ ''.'' @ payload_email payload
       @ ''.'' @ payload_role payload @ ''.'' @ String_of_nat now @ ''+'' @ expiresIn"

definition jwt_sign :: "JWTPayload \<Rightarrow> string \<Rightarrow> string \<Rightarrow> nat \<Rightarrow> string" where
  "jwt_sign payload secret expiresIn now =
     ''eyJhbGciOiJIUzI1NiIsInR5cCI6IkpXVCJ9.''
       @ ''sub:'' @ String_of_int (sub payload) @ '',email:'' @ payload_email payload
       @ '',role:'' @ payload_role payload @ '',iat:'' @ String_of_nat now
       @ '',exp:'' @ String_of_nat now @ ''+'' @ expiresIn @ ''.'' @ secret"

definition to_lower :: "char \<Rightarrow> char" where
  "to_lower c =
     (case map_of (zip ''ABCDEFGHIJKLMNOPQRSTUVWXYZ'' ''abcdefghijklmnopqrstuvwxyz'') c of
        None \<Rightarrow> c
      | Some l \<Rightarrow> l)"

definition stub_extract :: "request \<Rightarrow> string option" where
  "stub_extract req =
     (case authorization req of
        None \<Rightarrow> None
      | Some hdr \<Rightarrow>
          (let s = dropWhile is_whitespace hdr;
               scheme = takeWhile (\<lambda>c. \<not> is_whitespace c) s;
               rest = dropWhile (\<lambda>c. \<not> is_whitespace c) s;
               token = takeWhile (\<lambda>c. \<not> is_whitespace c) (dropWhile is_whitespace rest)
           in if scheme \<noteq> [] \<and> rest \<noteq> [] \<and> token \<noteq> [] \<and> map to_lower scheme = ''bearer''
              then Some token else None))"

definition stub_verify :: "string \<Rightarrow> nat \<Rightarrow> string \<Rightarrow> JWTPayload option" where
  "stub_verify secret now token =
     map_of
       [((''at-secret'', ''at-secret.1.a@x.com.student.100+15m''),
           \<lparr>sub = 1, payload_email = ''a@x.com'', payload_role = ''student''\<rparr>),
        ((''at-secret'', ''at-secret.1.a@x.com.admin.100+15m''),
           \<lparr>sub = 1, payload_email = ''a@x.com'', payload_role = ''admin''\<rparr>),
        ((''at-secret'', ''at-secret.2.b@x.com.admin.100+15m''),
           \<lparr>sub = 2, payload_email = ''b@x.com'', payload_role = ''admin''\<rparr>),
        ((''rt-secret'', ''rt-secret.1.a@x.com.student.100+7d''),
           \<lparr>sub = 1, payload_email = ''a@x.com'', payload_role = ''student''\<rparr>)]
       (secret, token)"

definition stub_hash :: "string \<Rightarrow> string \<Rightarrow> string" where
  "stub_hash data salt = take 2 (salt @ ''..'') @ take 72 data"

definition stub_compare :: "string \<Rightarrow> string \<Rightarrow> bool" where
  "stub_compare data encrypted = (2 \<le> length encrypted \<and> drop 2 encrypted = take 72 data)"

definition digit_value :: "char \<Rightarrow> nat option" where
  "digit_value c = map_of (zip ''0123456789'' [0, 1, 2, 3, 4, 5, 6, 7, 8, 9]) c"

definition stub_ParseIntPipe :: "string option \<Rightarrow> error + int" where
  "stub_ParseIntPipe v =
     (case v of
        None \<Rightarrow> Inl (BadRequestException ''Validation failed (numeric string is expected)'')
      | Some s \<Rightarrow>
          (let negative = (take 1 s = ''-'');
               digits = (if negative then drop 1 s else s);
               n = foldl (\<lambda>n c. 10 * n + (case digit_value c of None \<Rightarrow> 0 | Some d \<Rightarrow> d)) 0 digits
           in if digits = [] \<or> list_ex (\<lambda>c. digit_value c = None) digits
              then Inl (BadRequestException ''Validation failed (numeric string is expected)'')
              else Inr (if negative then - int n else int n)))"

definition stub_env :: env where
  "stub_env =
     \<lparr>JWT_ACCESS_TOKEN_SECRET = ''at-secret'',
      JWT_ACCESS_TOKEN_EXPIRATION_TIME = ''15m'',
      JWT_REFRESH_TOKEN_SECRET = ''rt-secret'',
      JWT_REFRESH_TOKEN_EXPIRATION_TIME = ''7d'',
      signAsync = stub_sign,
      jwtFromRequest = stub_extract,
      jwtVerify = stub_verify,
      Bcrypt_hash = stub_hash,
      Bcrypt_compare = stub_compare,
      ParseIntPipe = stub_ParseIntPipe\<rparr>"

definition jwt_env :: env where
  "jwt_env = stub_env\<lparr>signAsync := jwt_sign\<rparr>"

text \<open>
  A table with two profiles: a student with password \<^verbatim>\<open>pw123\<close> and an
  administrator, neither signed in.
\<close>

definition alice :: Profile where
  "alice =
     \<lparr>profile_id = 1, firstName = ''Alice'', lastName = ''A'', email = ''a@x.com'',
      password = ''s0pw123'', role = STUDENT, hashedRefreshToken = None\<rparr>"

definition bob :: Profile where
  "bob =
     \<lparr>profile_id = 2, firstName = ''Bob'', lastName = ''B'', email = ''b@x.com'',
      password = ''s1hunter2'', role = ADMIN, hashedRefreshToken = None\<rparr>"

definition store0 :: store where
  "store0 = [alice, bob]"

text \<open>The table after the student has signed in at second 100 with salt \<^verbatim>\<open>s2\<close>.\<close>

definition store1 :: store where
  "store1 = [alice\<lparr>hashedRefreshToken := Some ''s2rt-secret.1.a@x.com.student.100+7d''\<rparr>, bob]"

section \<open>Facts about the repository\<close>

lemma some_member: "some (\<lambda>r. x = r) rs = (x \<in> set rs)"
  by (induction rs) auto

lemma find_map_preserved:
  assumes "\<And>p. profile_id (f p) = profile_id p"
  shows "find (\<lambda>p. profile_id p = j) (map (\<lambda>p. if profile_id p = i then f p else p) st)
         = (if j = i then map_option f (find (\<lambda>p. profile_id p = i) st)
            else find (\<lambda>p. profile_id p = j) st)"
  using assms by (induction st) auto

lemma findOne_by_id_update:
  assumes "\<And>p. profile_id (f p) = profile_id p"
  shows "findOne_by_id (snd (repository_update i f st)) j
         = (if j = i then map_option f (findOne_by_id st i) else findOne_by_id st j)"
  unfolding findOne_by_id_def repository_update_def snd_conv
  by (rule find_map_preserved) (rule assms)

lemma affected_zero: "(fst (repository_update i f st) = 0) = (findOne_by_id st i = None)"
  by (induction st) (auto simp: repository_update_def findOne_by_id_def)

lemma findOne_by_id_Some_id: "findOne_by_id st i = Some p \<Longrightarrow> profile_id p = i"
  by (auto simp: findOne_by_id_def find_Some_iff)

lemma findOne_saveRefreshToken:
  "findOne_by_id (saveRefreshToken E salt st i rt) j
     = (if j = i then map_option (\<lambda>p. p\<lparr>hashedRefreshToken := Some (hashData E salt rt)\<rparr>)
                        (findOne_by_id st i)
        else findOne_by_id st j)"
  unfolding saveRefreshToken_def Let_def
  by (rule findOne_by_id_update) simp

lemma store0_rows:
  "findOne_by_id store0 1 = Some alice"
  "findOne_by_id store0 2 = Some bob"
  "findOne_by_id store0 7 = None"
  by (simp_all add: findOne_by_id_def store0_def alice_def bob_def)

section \<open>The roles guard\<close>

text \<open>
  C1. On a route whose \<^verbatim>\<open>roles\<close> metadata is set (in particular to a non-empty list),
  \<^verbatim>\<open>RolesGuard.canActivate\<close> denies a request with no user attached, denies a user
  whose \<^verbatim>\<open>sub\<close> has no profile in the table, and otherwise allows exactly when the role
  read from the table for that \<^verbatim>\<open>sub\<close> is a member of the required roles.
\<close>

theorem RolesGuard_decision:
  "getAllAndOverride (handler_roles meta) (class_roles meta) = Some requiredRoles \<Longrightarrow>
     (\<not> RolesGuard_canActivate meta None st) \<and>
     (findOne_by_id st (sub user) = None \<longrightarrow> \<not> RolesGuard_canActivate meta (Some user) st) \<and>
     (\<forall>userProfile. findOne_by_id st (sub user) = Some userProfile \<longrightarrow>
        RolesGuard_canActivate meta (Some user) st = (role userProfile \<in> set requiredRoles))"
  by (simp add: RolesGuard_canActivate_def some_member)

theorem RolesGuard_decision_witness:
  "getAllAndOverride (handler_roles (no_metadata\<lparr>handler_roles := Roles [ADMIN, FACULTY]\<rparr>))
       (class_roles (no_metadata\<lparr>handler_roles := Roles [ADMIN, FACULTY]\<rparr>)) = Some [ADMIN, FACULTY] \<and>
   \<not> RolesGuard_canActivate (no_metadata\<lparr>handler_roles := Roles [ADMIN, FACULTY]\<rparr>) None store0 \<and>
   findOne_by_id store0 7 = None \<and>
   \<not> RolesGuard_canActivate (no_metadata\<lparr>handler_roles := Roles [ADMIN, FACULTY]\<rparr>)
       (Some \<lparr>sub = 7, payload_email = ''c@x.com'', payload_role = ''admin''\<rparr>) store0 \<and>
   findOne_by_id store0 2 = Some bob \<and>
   RolesGuard_canActivate (no_metadata\<lparr>handler_roles := Roles [ADMIN, FACULTY]\<rparr>)
       (Some \<lparr>sub = 2, payload_email = ''b@x.com'', payload_role = ''admin''\<rparr>) store0 \<and>
   findOne_by_id store0 1 = Some alice \<and>
   \<not> RolesGuard_canActivate (no_metadata\<lparr>handler_roles := Roles [ADMIN, FACULTY]\<rparr>)
       (Some \<lparr>sub = 1, payload_email = ''a@x.com'', payload_role = ''admin''\<rparr>) store0"
proof -
  let ?m = "no_metadata\<lparr>handler_roles := Roles [ADMIN, FACULTY]\<rparr>"
  have m: "getAllAndOverride (handler_roles ?m) (class_roles ?m) = Some [ADMIN, FACULTY]"
    by (simp add: getAllAndOverride_def Roles_def no_metadata_def)
  have r2: "role bob = ADMIN" and r1: "role alice = STUDENT"
    by (simp_all add: alice_def bob_def)
  show ?thesis
    using m store0_rows r1 r2
      RolesGuard_decision [OF m, of store0 "\<lparr>sub = 7, payload_email = ''c@x.com'', payload_role = ''admin''\<rparr>"]
      RolesGuard_decision [OF m, of store0 "\<lparr>sub = 2, payload_email = ''b@x.com'', payload_role = ''admin''\<rparr>"]
      RolesGuard_decision [OF m, of store0 "\<lparr>sub = 1, payload_email = ''a@x.com'', payload_role = ''admin''\<rparr>"]
    by simp
qed

section \<open>Guarded routes and the role claim of the token\<close>

lemma AtGuard_authenticated:
  "getAllAndOverride (handler_isPublic meta) (class_isPublic meta) \<noteq> Some True \<Longrightarrow>
   jwtFromRequest E req = Some token \<Longrightarrow>
   jwtVerify E (JWT_ACCESS_TOKEN_SECRET E) now token = Some user \<Longrightarrow>
   AtGuard_canActivate E now meta req = Inr (Some user)"
  by (simp add: AtGuard_canActivate_def AuthGuard_jwt_at_def AtStrategy_validate_def)

lemma AtGuard_public:
  "getAllAndOverride (handler_isPublic meta) (class_isPublic meta) = Some True \<Longrightarrow>
   AtGuard_canActivate E now meta req = Inr None"
  by (simp add: AtGuard_canActivate_def)

lemma RolesGuard_same_sub:
  "sub user' = sub user \<Longrightarrow>
   RolesGuard_canActivate meta (Some user') st = RolesGuard_canActivate meta (Some user) st"
  by (simp add: RolesGuard_canActivate_def split: option.splits)

lemma findOne_by_id_role_update:
  "findOne_by_id (snd (repository_update i (\<lambda>p. p\<lparr>role := r\<rparr>) st)) i
     = map_option (\<lambda>p. p\<lparr>role := r\<rparr>) (findOne_by_id st i)"
  by (simp add: findOne_by_id_update)

text \<open>
  C2. The decision of \<^verbatim>\<open>RolesGuard\<close> does not read the role claim of the
  token: two requests whose validly signed access tokens carry the same subject get
  the same outcome on every route, whatever role each token claims; and once the role
  of the subject's profile has been changed in the table, a request with the old
  token is allowed exactly when the new stored role is among the required roles.
\<close>

theorem no_stale_role:
  "RolesGuard_canActivate meta (Some (user\<lparr>payload_role := claimed\<rparr>)) st
     = RolesGuard_canActivate meta (Some user) st \<and>
   (jwtFromRequest E req = Some token \<and>
    jwtVerify E (JWT_ACCESS_TOKEN_SECRET E) now token = Some user \<and>
    jwtFromRequest E req' = Some token' \<and>
    jwtVerify E (JWT_ACCESS_TOKEN_SECRET E) now token' = Some user' \<and>
    sub user' = sub user \<longrightarrow>
      outcome_of (guarded_route E now meta st req') = outcome_of (guarded_route E now meta st req)) \<and>
   (jwtFromRequest E req = Some token \<and>
    jwtVerify E (JWT_ACCESS_TOKEN_SECRET E) now token = Some user \<and>
    getAllAndOverride (handler_isPublic meta) (class_isPublic meta) \<noteq> Some True \<and>
    getAllAndOverride (handler_roles meta) (class_roles meta) = Some requiredRoles \<and>
    findOne_by_id st (sub user) \<noteq> None \<longrightarrow>
      outcome_of (guarded_route E now meta
                    (snd (repository_update (sub user) (\<lambda>p. p\<lparr>role := newRole\<rparr>) st)) req)
        = (if newRole \<in> set requiredRoles then Allow
           else Deny (ForbiddenException ''Forbidden resource'')))"
proof (intro conjI impI)
  show "RolesGuard_canActivate meta (Some (user\<lparr>payload_role := claimed\<rparr>)) st
          = RolesGuard_canActivate meta (Some user) st"
    by (rule RolesGuard_same_sub) simp
next
  assume h: "jwtFromRequest E req = Some token \<and>
    jwtVerify E (JWT_ACCESS_TOKEN_SECRET E) now token = Some user \<and>
    jwtFromRequest E req' = Some token' \<and>
    jwtVerify E (JWT_ACCESS_TOKEN_SECRET E) now token' = Some user' \<and>
    sub user' = sub user"
  show "outcome_of (guarded_route E now meta st req') = outcome_of (guarded_route E now meta st req)"
  proof (cases "getAllAndOverride (handler_isPublic meta) (class_isPublic meta) = Some True")
    case True
    then show ?thesis
      by (simp add: guarded_route_def AtGuard_public)
  next
    case False
    from h have "sub user' = sub user"
      by simp
    then have same: "RolesGuard_canActivate meta (Some user') st
                         = RolesGuard_canActivate meta (Some user) st"
      by (rule RolesGuard_same_sub)
    from False h have "AtGuard_canActivate E now meta req = Inr (Some user)"
      and "AtGuard_canActivate E now meta req' = Inr (Some user')"
      by (simp_all add: AtGuard_authenticated)
    with same show ?thesis
      by (simp add: guarded_route_def)
  qed
next
  assume h: "jwtFromRequest E req = Some token \<and>
    jwtVerify E (JWT_ACCESS_TOKEN_SECRET E) now token = Some user \<and>
    getAllAndOverride (handler_isPublic meta) (class_isPublic meta) \<noteq> Some True \<and>
    getAllAndOverride (handler_roles meta) (class_roles meta) = Some requiredRoles \<and>
    findOne_by_id st (sub user) \<noteq> None"
  let ?st' = "snd (repository_update (sub user) (\<lambda>p. p\<lparr>role := newRole\<rparr>) st)"
  from h obtain p where p: "findOne_by_id st (sub user) = Some p"
    by auto
  then have "findOne_by_id ?st' (sub user) = Some (p\<lparr>role := newRole\<rparr>)"
    by (simp add: findOne_by_id_role_update)
  with h have "RolesGuard_canActivate meta (Some user) ?st' = (newRole \<in> set requiredRoles)"
    by (simp add: RolesGuard_canActivate_def some_member)
  moreover from h have "AtGuard_canActivate E now meta req = Inr (Some user)"
    by (simp add: AtGuard_authenticated)
  ultimately show "outcome_of (guarded_route E now meta ?st' req)
        = (if newRole \<in> set requiredRoles then Allow
           else Deny (ForbiddenException ''Forbidden resource''))"
    by (simp add: guarded_route_def)
qed

subsection \<open>The fields of the test double\<close>

lemma stub_env_fields:
  "JWT_ACCESS_TOKEN_SECRET stub_env = ''at-secret''"
  "JWT_ACCESS_TOKEN_EXPIRATION_TIME stub_env = ''15m''"
  "JWT_REFRESH_TOKEN_SECRET stub_env = ''rt-secret''"
  "JWT_REFRESH_TOKEN_EXPIRATION_TIME stub_env = ''7d''"
  "signAsync stub_env = stub_sign"
  "jwtFromRequest stub_env = stub_extract"
  "jwtVerify stub_env = stub_verify"
  "Bcrypt_hash stub_env = stub_hash"
  "Bcrypt_compare stub_env = stub_compare"
  "ParseIntPipe stub_env = stub_ParseIntPipe"
  by (simp_all add: stub_env_def)

lemmas stub_extract_eval = stub_extract_def is_whitespace_def to_lower_def Let_def

subsection \<open>Two tokens of one subject, and a role changed in the table\<close>

theorem no_stale_role_witness:
  "jwtFromRequest stub_env \<lparr>authorization = Some ''Bearer at-secret.1.a@x.com.student.100+15m''\<rparr>
     = Some ''at-secret.1.a@x.com.student.100+15m'' \<and>
   jwtVerify stub_env (JWT_ACCESS_TOKEN_SECRET stub_env) 100 ''at-secret.1.a@x.com.student.100+15m''
     = Some \<lparr>sub = 1, payload_email = ''a@x.com'', payload_role = ''student''\<rparr> \<and>
   jwtFromRequest stub_env \<lparr>authorization = Some ''Bearer at-secret.1.a@x.com.admin.100+15m''\<rparr>
     = Some ''at-secret.1.a@x.com.admin.100+15m'' \<and>
   jwtVerify stub_env (JWT_ACCESS_TOKEN_SECRET stub_env) 100 ''at-secret.1.a@x.com.admin.100+15m''
     = Some \<lparr>sub = 1, payload_email = ''a@x.com'', payload_role = ''admin''\<rparr> \<and>
   getAllAndOverride (handler_isPublic (no_metadata\<lparr>handler_roles := Roles [ADMIN]\<rparr>))
       (class_isPublic (no_metadata\<lparr>handler_roles := Roles [ADMIN]\<rparr>)) \<noteq> Some True \<and>
   getAllAndOverride (handler_roles (no_metadata\<lparr>handler_roles := Roles [ADMIN]\<rparr>))
       (class_roles (no_metadata\<lparr>handler_roles := Roles [ADMIN]\<rparr>)) = Some [ADMIN] \<and>
   findOne_by_id store0 1 \<noteq> None \<and>
   outcome_of (guarded_route stub_env 100 (no_metadata\<lparr>handler_roles := Roles [ADMIN]\<rparr>) store0
                 \<lparr>authorization = Some ''Bearer at-secret.1.a@x.com.admin.100+15m''\<rparr>)
     = outcome_of (guarded_route stub_env 100 (no_metadata\<lparr>handler_roles := Roles [ADMIN]\<rparr>) store0
                 \<lparr>authorization = Some ''Bearer at-secret.1.a@x.com.student.100+15m''\<rparr>) \<and>
   outcome_of (guarded_route stub_env 100 (no_metadata\<lparr>handler_roles := Roles [ADMIN]\<rparr>)
                 (snd (repository_update 1 (\<lambda>p. p\<lparr>role := ADMIN\<rparr>) store0))
                 \<lparr>authorization = Some ''Bearer at-secret.1.a@x.com.student.100+15m''\<rparr>)
     = Allow"
proof -
  let ?m = "no_metadata\<lparr>handler_roles := Roles [ADMIN]\<rparr>"
  let ?req = "\<lparr>authorization = Some ''Bearer at-secret.1.a@x.com.student.100+15m''\<rparr>"
  let ?req' = "\<lparr>authorization = Some ''Bearer at-secret.1.a@x.com.admin.100+15m''\<rparr>"
  let ?user = "\<lparr>sub = 1, payload_email = ''a@x.com'', payload_role = ''student''\<rparr>"
  let ?user' = "\<lparr>sub = 1, payload_email = ''a@x.com'', payload_role = ''admin''\<rparr>"
  have e: "jwtFromRequest stub_env ?req = Some ''at-secret.1.a@x.com.student.100+15m''"
    and e': "jwtFromRequest stub_env ?req' = Some ''at-secret.1.a@x.com.admin.100+15m''"
    by (simp_all add: stub_env_fields stub_extract_eval)
  have v: "jwtVerify stub_env (JWT_ACCESS_TOKEN_SECRET stub_env) 100
             ''at-secret.1.a@x.com.student.100+15m'' = Some ?user"
    and v': "jwtVerify stub_env (JWT_ACCESS_TOKEN_SECRET stub_env) 100
             ''at-secret.1.a@x.com.admin.100+15m'' = Some ?user'"
    by (simp_all add: stub_env_fields stub_verify_def)
  have p: "getAllAndOverride (handler_isPublic ?m) (class_isPublic ?m) \<noteq> Some True"
    and r: "getAllAndOverride (handler_roles ?m) (class_roles ?m) = Some [ADMIN]"
    by (simp_all add: getAllAndOverride_def no_metadata_def Roles_def)
  have f: "findOne_by_id store0 1 \<noteq> None"
    by (simp add: store0_rows)
  show ?thesis
    using e e' v v' p r f
      no_stale_role [where E = stub_env and now = 100 and meta = ?m and st = store0
        and req = ?req and req' = ?req' and user = ?user and user' = ?user'
        and token = "''at-secret.1.a@x.com.student.100+15m''"
        and token' = "''at-secret.1.a@x.com.admin.100+15m''"
        and requiredRoles = "[ADMIN]" and newRole = ADMIN]
    by simp
qed

section \<open>Unset and empty required roles\<close>

text \<open>
  C4 (as amended). When a route has no \<^verbatim>\<open>roles\<close> metadata \<^verbatim>\<open>RolesGuard\<close>
  allows every request. When the metadata is present but empty (\<^verbatim>\<open>Roles()\<close> with no
  argument) it denies every request: the empty array is truthy, so the guard goes
  on to the membership test, which fails for every role.
\<close>

theorem RolesGuard_unset_or_empty:
  "(getAllAndOverride (handler_roles meta) (class_roles meta) = None \<longrightarrow>
      RolesGuard_canActivate meta request_user st) \<and>
   (getAllAndOverride (handler_roles meta) (class_roles meta) = Roles [] \<longrightarrow>
      \<not> RolesGuard_canActivate meta request_user st)"
  by (simp add: RolesGuard_canActivate_def Roles_def split: option.splits)

theorem RolesGuard_unset_or_empty_witness:
  "getAllAndOverride (handler_roles no_metadata) (class_roles no_metadata) = None \<and>
   RolesGuard_canActivate no_metadata
     (Some \<lparr>sub = 1, payload_email = ''a@x.com'', payload_role = ''student''\<rparr>) store0 \<and>
   getAllAndOverride (handler_roles (no_metadata\<lparr>handler_roles := Roles []\<rparr>))
     (class_roles (no_metadata\<lparr>handler_roles := Roles []\<rparr>)) = Roles [] \<and>
   \<not> RolesGuard_canActivate (no_metadata\<lparr>handler_roles := Roles []\<rparr>)
     (Some \<lparr>sub = 2, payload_email = ''b@x.com'', payload_role = ''admin''\<rparr>) store0"
proof -
  have u: "getAllAndOverride (handler_roles no_metadata) (class_roles no_metadata) = None"
    and e: "getAllAndOverride (handler_roles (no_metadata\<lparr>handler_roles := Roles []\<rparr>))
              (class_roles (no_metadata\<lparr>handler_roles := Roles []\<rparr>)) = Roles []"
    by (simp_all add: getAllAndOverride_def no_metadata_def Roles_def)
  show ?thesis
    using u e
      RolesGuard_unset_or_empty [of no_metadata
        "Some \<lparr>sub = 1, payload_email = ''a@x.com'', payload_role = ''student''\<rparr>" store0]
      RolesGuard_unset_or_empty [of "no_metadata\<lparr>handler_roles := Roles []\<rparr>"
        "Some \<lparr>sub = 2, payload_email = ''b@x.com'', payload_role = ''admin''\<rparr>" store0]
    by simp
qed

text \<open>
  The claim as stated fails: on a route tagged \<^verbatim>\<open>Roles()\<close> an authenticated
  administrator is refused.
\<close>

theorem RolesGuard_empty_roles_counterexample:
  "\<not> RolesGuard_canActivate (no_metadata\<lparr>handler_roles := Roles []\<rparr>)
       (Some \<lparr>sub = 2, payload_email = ''b@x.com'', payload_role = ''admin''\<rparr>) store0 \<and>
   guarded_route stub_env 100 (no_metadata\<lparr>handler_roles := Roles []\<rparr>) store0
       \<lparr>authorization = Some ''Bearer at-secret.2.b@x.com.admin.100+15m''\<rparr>
     = Inl (ForbiddenException ''Forbidden resource'')"
  by (simp add: RolesGuard_canActivate_def guarded_route_def AtGuard_canActivate_def
      AuthGuard_jwt_at_def AtStrategy_validate_def getAllAndOverride_def no_metadata_def
      Roles_def store0_rows stub_env_fields stub_extract_eval stub_verify_def)

section \<open>The access-token guard on public routes\<close>

text \<open>
  C6 (as amended). On a route tagged public, \<^verbatim>\<open>AtGuard.canActivate\<close>, the guard
  that is applied to every route, returns \<^verbatim>\<open>true\<close> at once: for every request, with
  or without an \<^verbatim>\<open>Authorization\<close> header, and whatever the token libraries would
  answer, nothing is verified and nothing is attached to the request. The guards that a
  route names itself still run. Behind \<^verbatim>\<open>AtGuard\<close> and \<^verbatim>\<open>RolesGuard\<close> a public
  route with no required roles is reached by every request; the public
  \<^verbatim>\<open>GET /auth/refresh\<close> names \<^verbatim>\<open>RtGuard\<close> and refuses with
  \<^verbatim>\<open>UnauthorizedException\<close> a request from which no bearer token is extracted.
\<close>

theorem AtGuard_public_bypass:
  "(getAllAndOverride (handler_isPublic meta) (class_isPublic meta) = Public \<longrightarrow>
      AtGuard_canActivate E now meta req = Inr None) \<and>
   AtGuard_canActivate E now (meta\<lparr>handler_isPublic := Public\<rparr>) \<lparr>authorization = None\<rparr> = Inr None \<and>
   (getAllAndOverride (handler_isPublic meta) (class_isPublic meta) = Public \<and>
    getAllAndOverride (handler_roles meta) (class_roles meta) = None \<longrightarrow>
      guarded_route E now meta st req = Inr None) \<and>
   (jwtFromRequest E req = None \<longrightarrow>
      GET_auth_refresh E now salt st req id_query = Inl (UnauthorizedException ''Unauthorized''))"
  by (simp add: AtGuard_canActivate_def Public_def getAllAndOverride_def guarded_route_def
      RolesGuard_canActivate_def GET_auth_refresh_def refresh_meta_def no_metadata_def
      RtGuard_canActivate_def)

theorem AtGuard_public_bypass_witness:
  "getAllAndOverride (handler_isPublic signin_meta) (class_isPublic signin_meta) = Public \<and>
   getAllAndOverride (handler_roles signin_meta) (class_roles signin_meta) = None \<and>
   AtGuard_canActivate stub_env 100 signin_meta \<lparr>authorization = None\<rparr> = Inr None \<and>
   AtGuard_canActivate stub_env 100 signin_meta \<lparr>authorization = Some ''Bearer junk''\<rparr> = Inr None \<and>
   guarded_route stub_env 100 signin_meta store0 \<lparr>authorization = None\<rparr> = Inr None \<and>
   jwtFromRequest stub_env \<lparr>authorization = None\<rparr> = None \<and>
   GET_auth_refresh stub_env 100 ''s3'' store0 \<lparr>authorization = None\<rparr> (Some ''1'')
     = Inl (UnauthorizedException ''Unauthorized'')"
proof -
  have p: "getAllAndOverride (handler_isPublic signin_meta) (class_isPublic signin_meta) = Public"
    and r: "getAllAndOverride (handler_roles signin_meta) (class_roles signin_meta) = None"
    by (simp_all add: getAllAndOverride_def signin_meta_def no_metadata_def Public_def)
  have e: "jwtFromRequest stub_env \<lparr>authorization = None\<rparr> = None"
    by (simp add: stub_env_fields stub_extract_eval)
  show ?thesis
    using p r e
      AtGuard_public_bypass [of signin_meta stub_env 100 "\<lparr>authorization = None\<rparr>" store0
        "''s3''" "Some ''1''"]
      AtGuard_public_bypass [of signin_meta stub_env 100 "\<lparr>authorization = Some ''Bearer junk''\<rparr>"
        store0 "''s3''" "Some ''1''"]
    by simp
qed

text \<open>
  The claim as stated fails: \<^verbatim>\<open>GET /auth/refresh\<close> is tagged public and the global
  guard lets the request pass, yet without an \<^verbatim>\<open>Authorization\<close> header the route is
  not reached.
\<close>

theorem public_refresh_route_counterexample:
  "getAllAndOverride (handler_isPublic refresh_meta) (class_isPublic refresh_meta) = Public \<and>
   AtGuard_canActivate stub_env 100 refresh_meta \<lparr>authorization = None\<rparr> = Inr None \<and>
   GET_auth_refresh stub_env 100 ''s3'' store1 \<lparr>authorization = None\<rparr> (Some ''1'')
     = Inl (UnauthorizedException ''Unauthorized'')"
  by (simp add: GET_auth_refresh_def AtGuard_canActivate_def RtGuard_canActivate_def
      refresh_meta_def no_metadata_def Public_def getAllAndOverride_def stub_env_fields
      stub_extract_def)

section \<open>Sign-out\<close>

lemma update_clear_twice:
  "snd (repository_update i (\<lambda>p. p\<lparr>hashedRefreshToken := None\<rparr>)
          (snd (repository_update i (\<lambda>p. p\<lparr>hashedRefreshToken := None\<rparr>) st)))
     = snd (repository_update i (\<lambda>p. p\<lparr>hashedRefreshToken := None\<rparr>) st)"
  by (induction st) (auto simp: repository_update_def)

lemma findOne_by_id_cleared:
  "findOne_by_id (snd (repository_update i (\<lambda>p. p\<lparr>hashedRefreshToken := None\<rparr>) st)) i
     = map_option (\<lambda>p. p\<lparr>hashedRefreshToken := None\<rparr>) (findOne_by_id st i)"
  by (simp add: findOne_by_id_update)

lemma signOut_found:
  "findOne_by_id st i = Some p \<Longrightarrow>
   signOut st i = Inr (''User with id : '' @ String_of_int i @ '' signed out successfully'',
                       snd (repository_update i (\<lambda>p. p\<lparr>hashedRefreshToken := None\<rparr>) st))"
  by (simp add: signOut_def Let_def affected_zero)

lemma signOut_absent:
  "findOne_by_id st i = None \<Longrightarrow>
   signOut st i = Inl (NotFoundException (''User with ID '' @ String_of_int i @ '' not found''))"
  by (simp add: signOut_def Let_def affected_zero)

text \<open>
  C8. For an id that has a profile, \<^verbatim>\<open>signOut\<close> succeeds, and a second
  \<^verbatim>\<open>signOut\<close> on the table it leaves succeeds again with the same message and changes
  nothing: the stored hash is \<^verbatim>\<open>null\<close> after the first call and stays so. For an id
  with no profile \<^verbatim>\<open>signOut\<close> throws \<^verbatim>\<open>NotFoundException\<close>.
\<close>

theorem signOut_idempotent:
  "(findOne_by_id st i \<noteq> None \<longrightarrow>
      (\<exists>message st'. signOut st i = Inr (message, st') \<and> signOut st' i = Inr (message, st') \<and>
         map_option hashedRefreshToken (findOne_by_id st' i) = Some None)) \<and>
   (findOne_by_id st i = None \<longrightarrow>
      signOut st i = Inl (NotFoundException (''User with ID '' @ String_of_int i @ '' not found'')))"
proof (intro conjI impI)
  assume "findOne_by_id st i \<noteq> None"
  then obtain p where p: "findOne_by_id st i = Some p"
    by auto
  let ?st' = "snd (repository_update i (\<lambda>p. p\<lparr>hashedRefreshToken := None\<rparr>) st)"
  let ?message = "''User with id : '' @ String_of_int i @ '' signed out successfully''"
  have first: "signOut st i = Inr (?message, ?st')"
    using p by (rule signOut_found)
  have p': "findOne_by_id ?st' i = Some (p\<lparr>hashedRefreshToken := None\<rparr>)"
    using p by (simp add: findOne_by_id_cleared)
  then have "signOut ?st' i
      = Inr (?message, snd (repository_update i (\<lambda>p. p\<lparr>hashedRefreshToken := None\<rparr>) ?st'))"
    by (rule signOut_found)
  then have second: "signOut ?st' i = Inr (?message, ?st')"
    by (simp only: update_clear_twice)
  from p' have "map_option hashedRefreshToken (findOne_by_id ?st' i) = Some None"
    by simp
  with first second
  show "\<exists>message st'. signOut st i = Inr (message, st') \<and> signOut st' i = Inr (message, st') \<and>
         map_option hashedRefreshToken (findOne_by_id st' i) = Some None"
    by blast
next
  assume "findOne_by_id st i = None"
  then show "signOut st i = Inl (NotFoundException (''User with ID '' @ String_of_int i @ '' not found''))"
    by (rule signOut_absent)
qed

lemma String_of_int_2: "String_of_int 2 = ''2''" "String_of_int 7 = ''7''" "String_of_int 1 = ''1''"
  by (simp_all add: String_of_int_def String_of_nat.simps digit_char_def)

theorem signOut_idempotent_witness:
  "findOne_by_id store1 1 \<noteq> None \<and>
   signOut store1 1 = Inr (''User with id : 1 signed out successfully'', store0) \<and>
   signOut store0 1 = Inr (''User with id : 1 signed out successfully'', store0) \<and>
   findOne_by_id store0 7 = None \<and>
   signOut store0 7 = Inl (NotFoundException ''User with ID 7 not found'')"
proof -
  have f: "findOne_by_id store1 1 \<noteq> None"
    by (simp add: findOne_by_id_def store1_def alice_def)
  have s1: "signOut store1 1 = Inr (''User with id : 1 signed out successfully'', store0)"
    by (simp add: signOut_def repository_update_def store1_def store0_def alice_def bob_def
        String_of_int_2)
  show ?thesis
    using f s1 store0_rows(3) signOut_idempotent [of store1 1] signOut_idempotent [of store0 7]
    by (auto simp: String_of_int_2)
qed

section \<open>The failures of the session lifecycle service\<close>

lemma signIn_error: "signIn E now salt st dto = Inl e \<Longrightarrow> is_NotFoundException e"
  by (auto simp: signIn_def Let_def split: option.splits if_splits)

lemma signOut_error: "signOut st i = Inl e \<Longrightarrow> is_NotFoundException e"
  by (auto simp: signOut_def Let_def split: if_splits)

lemma refreshTokens_error: "refreshTokens E now salt st i rt = Inl e \<Longrightarrow> is_NotFoundException e"
  by (auto simp: refreshTokens_def Let_def split: option.splits if_splits)

lemma is_NotFoundException_status: "is_NotFoundException e \<Longrightarrow> statusCode e = 404"
  by (cases e) simp_all

text \<open>
  C9. Each failure of \<^verbatim>\<open>AuthService\<close> is a \<^verbatim>\<open>NotFoundException\<close> (status 404):
  an unknown email and a wrong password on sign-in, an absent profile on sign-out and
  on refresh, an absent stored hash and a hash that does not match on refresh. No
  method returns another exception.
\<close>

theorem session_failures_are_NotFound:
  "(findOne_by_email st (dto_email dto) = None \<longrightarrow>
      (\<exists>m. signIn E now salt st dto = Inl (NotFoundException m))) \<and>
   (findOne_by_email st (dto_email dto) = Some foundUser \<and>
    \<not> Bcrypt_compare E (dto_password dto) (password foundUser) \<longrightarrow>
      (\<exists>m. signIn E now salt st dto = Inl (NotFoundException m))) \<and>
   (findOne_by_id st i = None \<longrightarrow> (\<exists>m. signOut st i = Inl (NotFoundException m))) \<and>
   (findOne_by_id st i = None \<longrightarrow>
      (\<exists>m. refreshTokens E now salt st i rt = Inl (NotFoundException m))) \<and>
   (findOne_by_id st i = Some foundUser \<and> hashedRefreshToken foundUser = None \<longrightarrow>
      (\<exists>m. refreshTokens E now salt st i rt = Inl (NotFoundException m))) \<and>
   (findOne_by_id st i = Some foundUser \<and> hashedRefreshToken foundUser = Some h \<and>
    \<not> Bcrypt_compare E rt h \<longrightarrow>
      (\<exists>m. refreshTokens E now salt st i rt = Inl (NotFoundException m))) \<and>
   (signIn E now salt st dto = Inl e \<or> signOut st i = Inl e \<or>
    refreshTokens E now salt st i rt = Inl e \<longrightarrow>
      is_NotFoundException e \<and> statusCode e = 404)"
proof (intro conjI impI)
  assume "signIn E now salt st dto = Inl e \<or> signOut st i = Inl e \<or>
    refreshTokens E now salt st i rt = Inl e"
  then show "is_NotFoundException e"
    using signIn_error signOut_error refreshTokens_error by blast
  then show "statusCode e = 404"
    by (rule is_NotFoundException_status)
qed (simp_all add: signIn_def signOut_absent refreshTokens_def)

theorem session_failures_are_NotFound_witness:
  "findOne_by_email store1 ''z@x.com'' = None \<and>
   signIn stub_env 100 ''s2'' store1 \<lparr>dto_email = ''z@x.com'', dto_password = ''pw123''\<rparr>
     = Inl (NotFoundException ''User with email z@x.com not found'') \<and>
   findOne_by_email store1 ''b@x.com'' = Some bob \<and>
   \<not> Bcrypt_compare stub_env ''wrong'' (password bob) \<and>
   signIn stub_env 100 ''s2'' store1 \<lparr>dto_email = ''b@x.com'', dto_password = ''wrong''\<rparr>
     = Inl (NotFoundException ''Invalid credentials'') \<and>
   findOne_by_id store1 7 = None \<and>
   signOut store1 7 = Inl (NotFoundException ''User with ID 7 not found'') \<and>
   refreshTokens stub_env 100 ''s2'' store1 7 ''x'' = Inl (NotFoundException ''User with ID 7 not found'') \<and>
   findOne_by_id store1 2 = Some bob \<and> hashedRefreshToken bob = None \<and>
   refreshTokens stub_env 100 ''s2'' store1 2 ''x'' = Inl (NotFoundException ''No refresh token found'') \<and>
   findOne_by_id store1 1
     = Some (alice\<lparr>hashedRefreshToken := Some ''s2rt-secret.1.a@x.com.student.100+7d''\<rparr>) \<and>
   \<not> Bcrypt_compare stub_env ''x'' ''s2rt-secret.1.a@x.com.student.100+7d'' \<and>
   refreshTokens stub_env 100 ''s2'' store1 1 ''x'' = Inl (NotFoundException ''Invalid refresh token'') \<and>
   is_NotFoundException (NotFoundException ''Invalid refresh token'') \<and>
   statusCode (NotFoundException ''Invalid refresh token'') = 404"
proof -
  let ?z = "\<lparr>dto_email = ''z@x.com'', dto_password = ''pw123''\<rparr>"
  let ?b = "\<lparr>dto_email = ''b@x.com'', dto_password = ''wrong''\<rparr>"
  let ?h = "''s2rt-secret.1.a@x.com.student.100+7d''"
  let ?a = "alice\<lparr>hashedRefreshToken := Some ?h\<rparr>"
  have fz: "findOne_by_email store1 (dto_email ?z) = None"
    and fb: "findOne_by_email store1 (dto_email ?b) = Some bob"
    by (simp_all add: findOne_by_email_def store1_def alice_def bob_def)
  have c: "\<not> Bcrypt_compare stub_env (dto_password ?b) (password bob)"
    and c': "\<not> Bcrypt_compare stub_env ''x'' ?h"
    by (simp_all add: stub_env_fields stub_compare_def bob_def)
  have f7: "findOne_by_id store1 7 = None" and f2: "findOne_by_id store1 2 = Some bob"
    and f1: "findOne_by_id store1 1 = Some ?a"
    by (simp_all add: findOne_by_id_def store1_def alice_def bob_def)
  have hb: "hashedRefreshToken bob = None" and ha: "hashedRefreshToken ?a = Some ?h"
    by (simp_all add: bob_def)
  have r2: "refreshTokens stub_env 100 ''s2'' store1 2 ''x''
              = Inl (NotFoundException ''No refresh token found'')"
    using f2 hb by (simp add: refreshTokens_def)
  have r1: "refreshTokens stub_env 100 ''s2'' store1 1 ''x''
              = Inl (NotFoundException ''Invalid refresh token'')"
    using f1 ha c' by (simp add: refreshTokens_def)
  have sz: "signIn stub_env 100 ''s2'' store1 ?z
              = Inl (NotFoundException ''User with email z@x.com not found'')"
    using fz by (simp add: signIn_def)
  have sb: "signIn stub_env 100 ''s2'' store1 ?b = Inl (NotFoundException ''Invalid credentials'')"
    using fb c by (simp add: signIn_def)
  have o7: "signOut store1 7 = Inl (NotFoundException ''User with ID 7 not found'')"
    using f7 by (simp add: signOut_absent String_of_int_2)
  have r7: "refreshTokens stub_env 100 ''s2'' store1 7 ''x''
              = Inl (NotFoundException ''User with ID 7 not found'')"
    using f7 by (simp add: refreshTokens_def String_of_int_2)
  have "is_NotFoundException (NotFoundException ''Invalid refresh token'') \<and>
        statusCode (NotFoundException ''Invalid refresh token'') = 404"
    using r1 fz fb c f7 f1 ha c'
      session_failures_are_NotFound [of store1 ?z stub_env 100 "''s2''" bob 7 "''x''" ?h
         "NotFoundException ''Invalid refresh token''"]
      session_failures_are_NotFound [of store1 ?b stub_env 100 "''s2''" ?a 1 "''x''" ?h
         "NotFoundException ''Invalid refresh token''"]
    by simp
  with fz fb c c' f7 f2 f1 hb r2 r1 sz sb o7 r7 show ?thesis
    by simp
qed

text \<open>
  C10. \<^verbatim>\<open>GET /auth/signout/:id\<close> compares nothing with the caller: for every request
  whose access token verifies, whatever subject and role it carries, the route does
  what \<^verbatim>\<open>signOut\<close> does for the id of the path, and when that id has a profile the
  call succeeds and the stored hash of that profile is \<^verbatim>\<open>null\<close> afterwards.
\<close>

theorem signout_ignores_caller:
  "jwtFromRequest E req = Some token \<and>
   jwtVerify E (JWT_ACCESS_TOKEN_SECRET E) now token = Some caller \<longrightarrow>
     GET_auth_signout E now st req i = signOut st i \<and>
     (\<forall>target. findOne_by_id st i = Some target \<longrightarrow>
        (\<exists>message st'. GET_auth_signout E now st req i = Inr (message, st') \<and>
           findOne_by_id st' i = Some (target\<lparr>hashedRefreshToken := None\<rparr>)))"
proof (intro impI conjI allI)
  assume h: "jwtFromRequest E req = Some token \<and>
   jwtVerify E (JWT_ACCESS_TOKEN_SECRET E) now token = Some caller"
  have "getAllAndOverride (handler_isPublic signout_meta) (class_isPublic signout_meta) \<noteq> Some True"
    by (simp add: signout_meta_def no_metadata_def getAllAndOverride_def)
  with h have "AtGuard_canActivate E now signout_meta req = Inr (Some caller)"
    by (simp add: AtGuard_authenticated)
  then show eq: "GET_auth_signout E now st req i = signOut st i"
    by (simp add: GET_auth_signout_def AuthController_signOut_def)
  fix target
  assume t: "findOne_by_id st i = Some target"
  let ?st' = "snd (repository_update i (\<lambda>p. p\<lparr>hashedRefreshToken := None\<rparr>) st)"
  from t have "signOut st i
      = Inr (''User with id : '' @ String_of_int i @ '' signed out successfully'', ?st')"
    by (rule signOut_found)
  moreover from t have "findOne_by_id ?st' i = Some (target\<lparr>hashedRefreshToken := None\<rparr>)"
    by (simp add: findOne_by_id_cleared)
  ultimately show "\<exists>message st'. GET_auth_signout E now st req i = Inr (message, st') \<and>
           findOne_by_id st' i = Some (target\<lparr>hashedRefreshToken := None\<rparr>)"
    using eq by simp
qed


theorem signout_ignores_caller_witness:
  "jwtFromRequest stub_env \<lparr>authorization = Some ''Bearer at-secret.1.a@x.com.student.100+15m''\<rparr>
     = Some ''at-secret.1.a@x.com.student.100+15m'' \<and>
   jwtVerify stub_env (JWT_ACCESS_TOKEN_SECRET stub_env) 100 ''at-secret.1.a@x.com.student.100+15m''
     = Some \<lparr>sub = 1, payload_email = ''a@x.com'', payload_role = ''student''\<rparr> \<and>
   findOne_by_id store0 2 = Some bob \<and>
   GET_auth_signout stub_env 100 store0
       \<lparr>authorization = Some ''Bearer at-secret.1.a@x.com.student.100+15m''\<rparr> 2
     = Inr (''User with id : 2 signed out successfully'', store0)"
proof -
  let ?req = "\<lparr>authorization = Some ''Bearer at-secret.1.a@x.com.student.100+15m''\<rparr>"
  let ?caller = "\<lparr>sub = 1, payload_email = ''a@x.com'', payload_role = ''student''\<rparr>"
  have e: "jwtFromRequest stub_env ?req = Some ''at-secret.1.a@x.com.student.100+15m''"
    by (simp add: stub_env_fields stub_extract_eval)
  have v: "jwtVerify stub_env (JWT_ACCESS_TOKEN_SECRET stub_env) 100
             ''at-secret.1.a@x.com.student.100+15m'' = Some ?caller"
    by (simp add: stub_env_fields stub_verify_def)
  have s: "signOut store0 2 = Inr (''User with id : 2 signed out successfully'', store0)"
    by (simp add: signOut_def repository_update_def store0_def alice_def bob_def String_of_int_2)
  show ?thesis
    using e v s store0_rows(2)
      signout_ignores_caller [of stub_env ?req "''at-secret.1.a@x.com.student.100+15m''" 100
        ?caller store0 2]
    by simp
qed

section \<open>Sign-in\<close>

text \<open>
  C5 (as amended). Both failures of \<^verbatim>\<open>signIn\<close> throw \<^verbatim>\<open>NotFoundException\<close>, so
  the exception class and the status 404 are the same, but the messages differ:
  \<^verbatim>\<open>User with email <email> not found\<close> for an email that is not in the table,
  \<^verbatim>\<open>Invalid credentials\<close> for a password that does not match.
\<close>

theorem signIn_failures:
  "(findOne_by_email st (dto_email dto) = None \<longrightarrow>
      signIn E now salt st dto
        = Inl (NotFoundException (''User with email '' @ dto_email dto @ '' not found''))) \<and>
   (findOne_by_email st (dto_email dto) = Some foundUser \<and>
    \<not> Bcrypt_compare E (dto_password dto) (password foundUser) \<longrightarrow>
      signIn E now salt st dto = Inl (NotFoundException ''Invalid credentials'')) \<and>
   statusCode (NotFoundException (''User with email '' @ dto_email dto @ '' not found''))
     = statusCode (NotFoundException ''Invalid credentials'') \<and>
   NotFoundException (''User with email '' @ dto_email dto @ '' not found'')
     \<noteq> NotFoundException ''Invalid credentials''"
  by (simp add: signIn_def)

theorem signIn_failures_witness:
  "findOne_by_email store0 ''z@x.com'' = None \<and>
   signIn stub_env 100 ''s2'' store0 \<lparr>dto_email = ''z@x.com'', dto_password = ''pw123''\<rparr>
     = Inl (NotFoundException ''User with email z@x.com not found'') \<and>
   findOne_by_email store0 ''a@x.com'' = Some alice \<and>
   \<not> Bcrypt_compare stub_env ''wrong'' (password alice) \<and>
   signIn stub_env 100 ''s2'' store0 \<lparr>dto_email = ''a@x.com'', dto_password = ''wrong''\<rparr>
     = Inl (NotFoundException ''Invalid credentials'')"
proof -
  let ?z = "\<lparr>dto_email = ''z@x.com'', dto_password = ''pw123''\<rparr>"
  let ?a = "\<lparr>dto_email = ''a@x.com'', dto_password = ''wrong''\<rparr>"
  have fz: "findOne_by_email store0 (dto_email ?z) = None"
    and fa: "findOne_by_email store0 (dto_email ?a) = Some alice"
    by (simp_all add: findOne_by_email_def store0_def alice_def bob_def)
  have c: "\<not> Bcrypt_compare stub_env (dto_password ?a) (password alice)"
    by (simp add: stub_env_fields stub_compare_def alice_def)
  show ?thesis
    using fz fa c
      signIn_failures [of store0 ?z stub_env 100 "''s2''" alice]
      signIn_failures [of store0 ?a stub_env 100 "''s2''" alice]
    by simp
qed

text \<open>
  The claim as stated fails: the two failed attempts give different errors.
\<close>

theorem signIn_failures_distinguishable_counterexample:
  "signIn stub_env 100 ''s2'' store0 \<lparr>dto_email = ''z@x.com'', dto_password = ''pw123''\<rparr>
     = Inl (NotFoundException ''User with email z@x.com not found'') \<and>
   signIn stub_env 100 ''s2'' store0 \<lparr>dto_email = ''a@x.com'', dto_password = ''wrong''\<rparr>
     = Inl (NotFoundException ''Invalid credentials'') \<and>
   signIn stub_env 100 ''s2'' store0 \<lparr>dto_email = ''z@x.com'', dto_password = ''pw123''\<rparr>
     \<noteq> signIn stub_env 100 ''s2'' store0 \<lparr>dto_email = ''a@x.com'', dto_password = ''wrong''\<rparr>"
  by (simp add: signIn_def findOne_by_email_def store0_def alice_def bob_def
      stub_env_fields stub_compare_def)

section \<open>Refresh-token rotation and revocation\<close>

lemma refreshTokens_success:
  assumes "refreshTokens E now salt st i presented = Inr (tokens, st')"
  shows "\<exists>foundUser h. findOne_by_id st i = Some foundUser \<and>
           hashedRefreshToken foundUser = Some h \<and> h \<noteq> [] \<and> Bcrypt_compare E presented h \<and>
           tokens = getTokens E now i (email foundUser) (Role_value (role foundUser)) \<and>
           st' = saveRefreshToken E salt st i (refreshToken tokens)"
proof -
  from assms obtain foundUser where f: "findOne_by_id st i = Some foundUser"
    by (auto simp: refreshTokens_def split: option.splits)
  then have "profile_id foundUser = i"
    by (rule findOne_by_id_Some_id)
  with assms f show ?thesis
    by (auto simp: refreshTokens_def Let_def split: option.splits if_splits)
qed

lemma refreshTokens_after_rotation:
  assumes ok: "refreshTokens E now1 salt1 st i presented = Inr (tokens1, st1)"
  shows "\<exists>foundUser. findOne_by_id st1 i
           = Some (foundUser\<lparr>hashedRefreshToken := Some (hashData E salt1 (refreshToken tokens1))\<rparr>)"
proof -
  from refreshTokens_success [OF ok] obtain foundUser
    where "findOne_by_id st i = Some foundUser"
      and "st1 = saveRefreshToken E salt1 st i (refreshToken tokens1)"
    by blast
  then have "findOne_by_id st1 i
      = Some (foundUser\<lparr>hashedRefreshToken := Some (hashData E salt1 (refreshToken tokens1))\<rparr>)"
    by (simp add: findOne_saveRefreshToken)
  then show ?thesis ..
qed

text \<open>
  What decides a refresh with the previous token after a rotation is
  \<^verbatim>\<open>Bcrypt.compare\<close> alone: the table then holds the hash of the new token, and the
  previous token is refused when \<open>Bcrypt_compare\<close> rejects it against that hash and
  accepted when \<open>Bcrypt_compare\<close> accepts it.
\<close>

lemma refreshTokens_previous_token:
  assumes ok: "refreshTokens E now1 salt1 st i previous = Inr (tokens1, st1)"
    and nonempty: "hashData E salt1 (refreshToken tokens1) \<noteq> []"
  shows "Bcrypt_compare E previous (hashData E salt1 (refreshToken tokens1)) \<Longrightarrow>
           \<exists>tokens2 st2. refreshTokens E now2 salt2 st1 i previous = Inr (tokens2, st2)"
    and "\<not> Bcrypt_compare E previous (hashData E salt1 (refreshToken tokens1)) \<Longrightarrow>
           refreshTokens E now2 salt2 st1 i previous = Inl (NotFoundException ''Invalid refresh token'')"
proof -
  from refreshTokens_after_rotation [OF ok] obtain foundUser where f: "findOne_by_id st1 i
      = Some (foundUser\<lparr>hashedRefreshToken := Some (hashData E salt1 (refreshToken tokens1))\<rparr>)"
    by blast
  show "Bcrypt_compare E previous (hashData E salt1 (refreshToken tokens1)) \<Longrightarrow>
           \<exists>tokens2 st2. refreshTokens E now2 salt2 st1 i previous = Inr (tokens2, st2)"
    using f nonempty by (simp add: refreshTokens_def Let_def)
  show "\<not> Bcrypt_compare E previous (hashData E salt1 (refreshToken tokens1)) \<Longrightarrow>
           refreshTokens E now2 salt2 st1 i previous = Inl (NotFoundException ''Invalid refresh token'')"
    using f nonempty by (simp add: refreshTokens_def)
qed

text \<open>
  Revocation by sign-out holds for every library behaviour: after \<^verbatim>\<open>signOut\<close> the
  stored hash is \<^verbatim>\<open>null\<close> and a refresh with any token fails.
\<close>

lemma signOut_revokes_refresh_token:
  assumes h: "signOut st i = Inr (message, st1)"
  shows "refreshTokens E now salt st1 i presented = Inl (NotFoundException ''No refresh token found'')"
proof -
  have "findOne_by_id st i \<noteq> None"
  proof
    assume "findOne_by_id st i = None"
    then have "signOut st i
        = Inl (NotFoundException (''User with ID '' @ String_of_int i @ '' not found''))"
      by (rule signOut_absent)
    with h show False
      by simp
  qed
  then obtain p where p: "findOne_by_id st i = Some p"
    by auto
  with h have "st1 = snd (repository_update i (\<lambda>p. p\<lparr>hashedRefreshToken := None\<rparr>) st)"
    by (simp add: signOut_found)
  with p have "findOne_by_id st1 i = Some (p\<lparr>hashedRefreshToken := None\<rparr>)"
    by (simp add: findOne_by_id_cleared)
  then show ?thesis
    by (simp add: refreshTokens_def)
qed

subsection \<open>The service on the test double\<close>

lemma String_of_nat_100:
  "String_of_nat 100 = ''100''" "String_of_nat 101 = ''101''" "String_of_nat 200 = ''200''"
  "String_of_nat 300 = ''300''"
  by (simp_all add: String_of_nat.simps digit_char_def)


lemma findOne_alice:
  "findOne_by_id [alice\<lparr>hashedRefreshToken := h\<rparr>, bob] 1 = Some (alice\<lparr>hashedRefreshToken := h\<rparr>)"
  "findOne_by_email [alice\<lparr>hashedRefreshToken := h\<rparr>, bob] ''a@x.com''
     = Some (alice\<lparr>hashedRefreshToken := h\<rparr>)"
  by (simp_all add: findOne_by_id_def findOne_by_email_def alice_def)

lemma alice_fields:
  "profile_id (alice\<lparr>hashedRefreshToken := h\<rparr>) = 1"
  "email (alice\<lparr>hashedRefreshToken := h\<rparr>) = ''a@x.com''"
  "role (alice\<lparr>hashedRefreshToken := h\<rparr>) = STUDENT"
  "password (alice\<lparr>hashedRefreshToken := h\<rparr>) = ''s0pw123''"
  "hashedRefreshToken (alice\<lparr>hashedRefreshToken := h\<rparr>) = h"
  by (simp_all add: alice_def)

lemma saveRefreshToken_alice:
  "saveRefreshToken E salt [alice\<lparr>hashedRefreshToken := h\<rparr>, bob] 1 rt
     = [alice\<lparr>hashedRefreshToken := Some (Bcrypt_hash E rt salt)\<rparr>, bob]"
  by (simp add: saveRefreshToken_def hashData_def repository_update_def alice_def bob_def)

lemma refreshTokens_alice:
  "refreshTokens E now salt [alice\<lparr>hashedRefreshToken := Some h\<rparr>, bob] 1 rt
     = (if h = [] then Inl (NotFoundException ''No refresh token found'')
        else if \<not> Bcrypt_compare E rt h then Inl (NotFoundException ''Invalid refresh token'')
        else Inr (getTokens E now 1 ''a@x.com'' ''student'',
                  [alice\<lparr>hashedRefreshToken :=
                     Some (Bcrypt_hash E (refreshToken (getTokens E now 1 ''a@x.com'' ''student''))
                             salt)\<rparr>, bob]))"
  by (simp add: refreshTokens_def findOne_alice alice_fields Let_def saveRefreshToken_alice)

lemma signIn_alice:
  "Bcrypt_compare E ''pw123'' ''s0pw123'' \<Longrightarrow>
   signIn E now salt store0 \<lparr>dto_email = ''a@x.com'', dto_password = ''pw123''\<rparr>
     = Inr (getTokens E now 1 ''a@x.com'' ''student'',
            [alice\<lparr>hashedRefreshToken :=
               Some (Bcrypt_hash E (refreshToken (getTokens E now 1 ''a@x.com'' ''student'')) salt)\<rparr>,
             bob])"
proof -
  assume c: "Bcrypt_compare E ''pw123'' ''s0pw123''"
  have s: "store0 = [alice\<lparr>hashedRefreshToken := None\<rparr>, bob]"
    by (simp add: store0_def alice_def)
  show ?thesis
    unfolding s
    using c by (simp add: signIn_def findOne_alice alice_fields Let_def saveRefreshToken_alice)
qed

lemma stub_compare_password: "stub_compare ''pw123'' ''s0pw123''"
  by (simp add: stub_compare_def)

lemma jwt_env_fields:
  "JWT_ACCESS_TOKEN_SECRET jwt_env = ''at-secret''"
  "JWT_ACCESS_TOKEN_EXPIRATION_TIME jwt_env = ''15m''"
  "JWT_REFRESH_TOKEN_SECRET jwt_env = ''rt-secret''"
  "JWT_REFRESH_TOKEN_EXPIRATION_TIME jwt_env = ''7d''"
  "signAsync jwt_env = jwt_sign"
  "Bcrypt_hash jwt_env = stub_hash"
  "Bcrypt_compare jwt_env = stub_compare"
  by (simp_all add: jwt_env_def stub_env_def)

lemma getTokens_jwt:
  "getTokens jwt_env 100 1 ''a@x.com'' ''student''
     = \<lparr>accessToken = ''eyJhbGciOiJIUzI1NiIsInR5cCI6IkpXVCJ9.sub:1,email:a@x.com,role:student,iat:100,exp:100+15m.at-secret'',
        refreshToken = ''eyJhbGciOiJIUzI1NiIsInR5cCI6IkpXVCJ9.sub:1,email:a@x.com,role:student,iat:100,exp:100+7d.rt-secret''\<rparr>"
  "getTokens jwt_env 200 1 ''a@x.com'' ''student''
     = \<lparr>accessToken = ''eyJhbGciOiJIUzI1NiIsInR5cCI6IkpXVCJ9.sub:1,email:a@x.com,role:student,iat:200,exp:200+15m.at-secret'',
        refreshToken = ''eyJhbGciOiJIUzI1NiIsInR5cCI6IkpXVCJ9.sub:1,email:a@x.com,role:student,iat:200,exp:200+7d.rt-secret''\<rparr>"
  "getTokens jwt_env 300 1 ''a@x.com'' ''student''
     = \<lparr>accessToken = ''eyJhbGciOiJIUzI1NiIsInR5cCI6IkpXVCJ9.sub:1,email:a@x.com,role:student,iat:300,exp:300+15m.at-secret'',
        refreshToken = ''eyJhbGciOiJIUzI1NiIsInR5cCI6IkpXVCJ9.sub:1,email:a@x.com,role:student,iat:300,exp:300+7d.rt-secret''\<rparr>"
  by (simp_all add: getTokens_def jwt_env_fields jwt_sign_def String_of_int_2 String_of_nat_100)

text \<open>
  C3. The code does not do what the claim says. A refresh token is a JSON Web Token,
  longer than 72 bytes, and the tokens of one identity agree on their first 72 bytes
  (the header and the first claims); bcrypt reads no further. On the test double with
  such tokens and such a hasher: the student signs in at second 100, refreshes at
  second 200 with the token of the sign-in and is given a different token, and at
  second 300 the superseded token of the sign-in is accepted once more.
\<close>

theorem refresh_accepts_superseded_token:
  "signIn jwt_env 100 ''s2'' store0 \<lparr>dto_email = ''a@x.com'', dto_password = ''pw123''\<rparr>
     = Inr (\<lparr>accessToken = ''eyJhbGciOiJIUzI1NiIsInR5cCI6IkpXVCJ9.sub:1,email:a@x.com,role:student,iat:100,exp:100+15m.at-secret'',
              refreshToken = ''eyJhbGciOiJIUzI1NiIsInR5cCI6IkpXVCJ9.sub:1,email:a@x.com,role:student,iat:100,exp:100+7d.rt-secret''\<rparr>,
            [alice\<lparr>hashedRefreshToken :=
               Some ''s2eyJhbGciOiJIUzI1NiIsInR5cCI6IkpXVCJ9.sub:1,email:a@x.com,role:student,ia''\<rparr>, bob]) \<and>
   refreshTokens jwt_env 200 ''s3''
       [alice\<lparr>hashedRefreshToken :=
          Some ''s2eyJhbGciOiJIUzI1NiIsInR5cCI6IkpXVCJ9.sub:1,email:a@x.com,role:student,ia''\<rparr>, bob] 1
       ''eyJhbGciOiJIUzI1NiIsInR5cCI6IkpXVCJ9.sub:1,email:a@x.com,role:student,iat:100,exp:100+7d.rt-secret''
     = Inr (\<lparr>accessToken = ''eyJhbGciOiJIUzI1NiIsInR5cCI6IkpXVCJ9.sub:1,email:a@x.com,role:student,iat:200,exp:200+15m.at-secret'',
              refreshToken = ''eyJhbGciOiJIUzI1NiIsInR5cCI6IkpXVCJ9.sub:1,email:a@x.com,role:student,iat:200,exp:200+7d.rt-secret''\<rparr>,
            [alice\<lparr>hashedRefreshToken :=
               Some ''s3eyJhbGciOiJIUzI1NiIsInR5cCI6IkpXVCJ9.sub:1,email:a@x.com,role:student,ia''\<rparr>, bob]) \<and>
   ''eyJhbGciOiJIUzI1NiIsInR5cCI6IkpXVCJ9.sub:1,email:a@x.com,role:student,iat:200,exp:200+7d.rt-secret''
     \<noteq> ''eyJhbGciOiJIUzI1NiIsInR5cCI6IkpXVCJ9.sub:1,email:a@x.com,role:student,iat:100,exp:100+7d.rt-secret'' \<and>
   refreshTokens jwt_env 300 ''s4''
       [alice\<lparr>hashedRefreshToken :=
          Some ''s3eyJhbGciOiJIUzI1NiIsInR5cCI6IkpXVCJ9.sub:1,email:a@x.com,role:student,ia''\<rparr>, bob] 1
       ''eyJhbGciOiJIUzI1NiIsInR5cCI6IkpXVCJ9.sub:1,email:a@x.com,role:student,iat:100,exp:100+7d.rt-secret''
     = Inr (\<lparr>accessToken = ''eyJhbGciOiJIUzI1NiIsInR5cCI6IkpXVCJ9.sub:1,email:a@x.com,role:student,iat:300,exp:300+15m.at-secret'',
              refreshToken = ''eyJhbGciOiJIUzI1NiIsInR5cCI6IkpXVCJ9.sub:1,email:a@x.com,role:student,iat:300,exp:300+7d.rt-secret''\<rparr>,
            [alice\<lparr>hashedRefreshToken :=
               Some ''s4eyJhbGciOiJIUzI1NiIsInR5cCI6IkpXVCJ9.sub:1,email:a@x.com,role:student,ia''\<rparr>, bob])"
  by (simp add: signIn_alice refreshTokens_alice getTokens_jwt jwt_env_fields
      stub_compare_password stub_compare_def stub_hash_def)

section \<open>The refresh route\<close>







subsection \<open>The refresh route on the test double\<close>








end
